theory Spec2Isabelle
  imports Complex_Main
begin

section \<open>JavaScript values, exceptions and number rendering\<close>

text \<open>
  The values that arrive untyped in a WebSocket payload or a request body. Only their
  truthiness and their \<open>typeof\<close> are ever looked at. Numbers are integers here; \<open>NaN\<close> and
  fractions do not occur in any branch the development looks at. \<open>JObject\<close> stands for any
  object or array.
\<close>

datatype jsval = JUndefined | JNull | JBool bool | JNum int | JStr string | JObject

fun truthy :: "jsval \<Rightarrow> bool" where
  "truthy JUndefined = False"
| "truthy JNull = False"
| "truthy (JBool b) = b"
| "truthy (JNum n) = (n \<noteq> 0)"
| "truthy (JStr s) = (s \<noteq> [])"
| "truthy JObject = True"

fun is_js_string :: "jsval \<Rightarrow> bool" where
  "is_js_string (JStr s) = True"
| "is_js_string v = False"

text \<open>
  A thrown value: an \<open>Error\<close> instance with its name and message, or any other value, given
  by the text that \<open>String\<close> makes of it (\<open>null\<close> for a thrown \<open>null\<close>, \<open>1,2\<close> for a thrown
  \<open>[1, 2]\<close>).
\<close>

datatype thrown = ErrorObject string string | Thrown string

text \<open>A natural number in decimal.\<close>

definition digit_char :: "nat \<Rightarrow> char" where
  "digit_char d = ''0123456789'' ! d"

fun decimal :: "nat \<Rightarrow> string" where
  "decimal n = (if n < 10 then [digit_char n] else decimal (n div 10) @ [digit_char (n mod 10)])"

declare decimal.simps [simp del]

text \<open>
  \<open>String(error)\<close>: \<open>Error.prototype.toString\<close> joins name and message with a colon and
  drops the empty one.
\<close>

fun string_of_thrown :: "thrown \<Rightarrow> string" where
  "string_of_thrown (ErrorObject name msg) =
     (if name = [] then msg else if msg = [] then name else name @ '': '' @ msg)"
| "string_of_thrown (Thrown rendering) = rendering"

text \<open>\<open>error instanceof Error ? error.message : 'Unknown error'\<close>\<close>

fun error_message_or_unknown :: "thrown \<Rightarrow> string" where
  "error_message_or_unknown (ErrorObject name msg) = msg"
| "error_message_or_unknown (Thrown v) = ''Unknown error''"

section \<open>CSRService.chat\<close>

record kb_document =
  doc_id :: string
  doc_content :: string
  doc_score :: real
  doc_metadata :: "(string \<times> string) list option"

record step_action =
  action_type :: "string option"
  action_toolName :: "string option"

record tool_output =
  out_documents :: "kb_document list option"

record step_result =
  result_output :: "tool_output option"

record agent_step =
  step_action :: "step_action option"
  step_result :: "step_result option"

record exec_options =
  opt_sessionId :: string
  opt_userId :: "string option"
  opt_enableMemory :: bool
  opt_enableRAG :: bool

record agent_result =
  res_response :: "string option"
  res_executionId :: "string option"
  res_steps :: "agent_step list"
  res_duration :: "nat option"

record chat_response =
  cr_response :: string
  cr_executionId :: "string option"
  cr_sessionId :: string
  cr_steps :: nat
  cr_duration :: nat
  cr_sources :: "kb_document list option"

text \<open>
  \<open>runtime.execute(agentName, message, options)\<close> belongs to the agent runtime package; it
  is a parameter of the model and either throws or returns a result.
\<close>

type_synonym executor = "string \<Rightarrow> string \<Rightarrow> exec_options \<Rightarrow> thrown + agent_result"

text \<open>\<open>a || b\<close> on an optional string: the empty string is falsy as well.\<close>

fun str_or :: "string option \<Rightarrow> string \<Rightarrow> string" where
  "str_or None d = d"
| "str_or (Some s) d = (if s = [] then d else s)"

text \<open>
  \<open>const sid = sessionId || `session-${Date.now()}`\<close>; \<open>now\<close> is the clock reading, a
  count of milliseconds that the template prints in decimal.
\<close>

definition session_id_for :: "nat \<Rightarrow> string option \<Rightarrow> string" where
  "session_id_for now sessionId = str_or sessionId (''session-'' @ decimal now)"

definition is_kb_search :: "agent_step \<Rightarrow> bool" where
  "is_kb_search step =
     (case step_action step of
        None \<Rightarrow> False
      | Some a \<Rightarrow> action_type a = Some ''use_tool'' \<and> action_toolName a = Some ''searchKnowledgeBase'')"

text \<open>\<open>step.result?.output?.documents\<close>\<close>

definition step_documents :: "agent_step \<Rightarrow> kb_document list option" where
  "step_documents step =
     (case step_result step of
        None \<Rightarrow> None
      | Some r \<Rightarrow> (case result_output r of None \<Rightarrow> None | Some out \<Rightarrow> out_documents out))"

text \<open>The inner loop: one \<open>sources.push\<close> per document, field by field.\<close>

fun push_documents :: "kb_document list \<Rightarrow> kb_document list \<Rightarrow> kb_document list" where
  "push_documents sources [] = sources"
| "push_documents sources (doc # docs) =
     push_documents
       (sources @ [\<lparr>doc_id = doc_id doc, doc_content = doc_content doc,
                    doc_score = doc_score doc, doc_metadata = doc_metadata doc\<rparr>])
       docs"

text \<open>The outer loop over \<open>result.steps\<close>.\<close>

fun collect_sources :: "kb_document list \<Rightarrow> agent_step list \<Rightarrow> kb_document list" where
  "collect_sources sources [] = sources"
| "collect_sources sources (step # rest) =
     collect_sources
       (if is_kb_search step
        then (case step_documents step of
                Some docs \<Rightarrow> push_documents sources docs
              | None \<Rightarrow> sources)
        else sources)
       rest"

definition chat :: "executor \<Rightarrow> nat \<Rightarrow> string \<Rightarrow> string option \<Rightarrow> string option
    \<Rightarrow> thrown + chat_response" where
  "chat execute now message sessionId userId =
     (let sid = session_id_for now sessionId in
      case execute ''csr-agent'' message
             \<lparr>opt_sessionId = sid, opt_userId = userId,
              opt_enableMemory = True, opt_enableRAG = True\<rparr> of
        Inl e \<Rightarrow> Inl e
      | Inr result \<Rightarrow>
          (let sources = collect_sources [] (res_steps result) in
           Inr \<lparr>cr_response = str_or (res_response result) ''I could not generate a response.'',
                cr_executionId = res_executionId result,
                cr_sessionId = sid,
                cr_steps = length (res_steps result),
                cr_duration = (case res_duration result of None \<Rightarrow> 0 | Some d \<Rightarrow> d),
                cr_sources = (if length sources > 0 then Some sources else None)\<rparr>))"

text \<open>
  The sources as the specification words them: the documents of every knowledge-base search
  step, flattened in step order, and no field at all when there is none.
\<close>

definition spec_sources :: "agent_step list \<Rightarrow> kb_document list option" where
  "spec_sources steps =
     (let docs = concat (map (\<lambda>s. case step_documents s of Some ds \<Rightarrow> ds | None \<Rightarrow> [])
                             (filter is_kb_search steps))
      in if docs = [] then None else Some docs)"

section \<open>Transport adapters: REST, SSE and WebSocket chat\<close>

text \<open>
  What a handler does to the outside, in order: it acts on its transport, or it writes a
  line to the log.
\<close>

datatype log_level = LogInfo | LogWarn | LogError

datatype 'a effect = Emit 'a | LogLine log_level string

record chat_request =
  req_message :: string
  req_sessionId :: "string option"
  req_userId :: "string option"

text \<open>\<open>CSRController.chat\<close>: no handler of its own, a throw reaches the framework.\<close>

definition chat_endpoint :: "executor \<Rightarrow> nat \<Rightarrow> chat_request \<Rightarrow> thrown + chat_response" where
  "chat_endpoint execute now dto =
     chat execute now (req_message dto) (req_sessionId dto) (req_userId dto)"

text \<open>
  \<open>CSRController.chatStream\<close>: what is done to the response object, in order; the method
  has no logging call. The frame is kept as the object handed to \<open>JSON.stringify\<close>.
\<close>

datatype sse_frame = SseResponse chat_response | SseError string

datatype res_effect = SetHeader string string | Write sse_frame | End

definition chatStream :: "executor \<Rightarrow> nat \<Rightarrow> chat_request \<Rightarrow> res_effect effect list" where
  "chatStream execute now dto =
     [Emit (SetHeader ''Content-Type'' ''text/event-stream''),
      Emit (SetHeader ''Cache-Control'' ''no-cache''),
      Emit (SetHeader ''Connection'' ''keep-alive''),
      (case chat execute now (req_message dto) (req_sessionId dto) (req_userId dto) of
         Inr result \<Rightarrow> Emit (Write (SseResponse result))
       | Inl error \<Rightarrow> Emit (Write (SseError (string_of_thrown error)))),
      Emit End]"

text \<open>The frames of the WebSocket gateway.\<close>

record ws_response =
  wr_response :: string
  wr_sessionId :: string
  wr_steps :: nat
  wr_duration :: nat
  wr_sources :: "kb_document list option"

datatype ws_frame = Thinking string | Response ws_response | ErrorFrame string

text \<open>
  \<open>CSRGateway.handleChatMessage\<close>: the frames sent to the client, and nothing at all when
  the client is no longer registered; the method has no logging call.
\<close>

definition handleChatMessage :: "executor \<Rightarrow> nat \<Rightarrow> bool \<Rightarrow> string \<Rightarrow> string option
    \<Rightarrow> string option \<Rightarrow> ws_frame effect list" where
  "handleChatMessage execute now client_known text sessionId userId =
     (if \<not> client_known then []
      else Emit (Thinking ''Processing your request...'') #
        (case chat execute now text sessionId userId of
           Inr result \<Rightarrow>
             [Emit (Response \<lparr>wr_response = cr_response result,
                              wr_sessionId = cr_sessionId result,
                              wr_steps = cr_steps result, wr_duration = cr_duration result,
                              wr_sources = cr_sources result\<rparr>)]
         | Inl error \<Rightarrow> [Emit (ErrorFrame (error_message_or_unknown error))]))"

text \<open>
  \<open>CSRGateway.handleMessage\<close>. The payload is untyped on arrival: \<open>msg_data\<close> is \<open>None\<close>
  when \<open>message.data\<close> is falsy, and each field of the data is any JavaScript value.
\<close>

record ws_data =
  data_text :: jsval
  data_sessionId :: jsval
  data_userId :: jsval

record ws_message =
  msg_event :: string
  msg_data :: "ws_data option"

datatype gateway_action =
    SuperHandleMessage string ws_message
  | SendToClient string string string
  | HandleChatMessage string jsval jsval jsval
  | CloseConnection string

definition handleMessage :: "string \<Rightarrow> ws_message \<Rightarrow> gateway_action list" where
  "handleMessage clientId message =
     SuperHandleMessage clientId message #
     (if msg_event message = ''message'' then
        (let data = (case msg_data message of
                       Some d \<Rightarrow> d
                     | None \<Rightarrow> \<lparr>data_text = JUndefined, data_sessionId = JUndefined,
                                  data_userId = JUndefined\<rparr>);
             text = data_text data
         in if \<not> truthy text \<or> \<not> is_js_string text
            then [SendToClient clientId ''error'' ''Invalid message: text is required'']
            else [HandleChatMessage clientId text (data_sessionId data) (data_userId data)])
      else [])"

section \<open>The searchKnowledgeBase tool\<close>

record search_options =
  so_topK :: int
  so_includeMetadata :: bool
  so_minScore :: real

record search_hit =
  hit_id :: string
  hit_content :: string
  hit_score :: real
  hit_metadata :: "(string \<times> string) list option"

text \<open>\<open>ragService.search(query, options)\<close>, a parameter: it throws or returns hits.\<close>

type_synonym rag_search = "string \<Rightarrow> search_options \<Rightarrow> thrown + search_hit list"

record kb_tool_result =
  kb_success :: bool
  kb_query :: "string option"
  kb_error :: "string option"
  kb_documents :: "kb_document list"
  kb_totalResults :: "nat option"

text \<open>\<open>input.topK || 5\<close> and the options of the search call.\<close>

definition kb_search_options :: "int option \<Rightarrow> search_options" where
  "kb_search_options topK_in =
     (let topK = (case topK_in of None \<Rightarrow> 5 | Some k \<Rightarrow> if k = 0 then 5 else k)
      in \<lparr>so_topK = topK, so_includeMetadata = True, so_minScore = 0.5\<rparr>)"

text \<open>
  \<open>CSRAgent.searchKnowledgeBase\<close>. The result type is a sum so that a throw leaving the
  method would show as \<open>Inl\<close>.
\<close>

definition searchKnowledgeBase :: "rag_search \<Rightarrow> string \<Rightarrow> int option \<Rightarrow> thrown + kb_tool_result" where
  "searchKnowledgeBase search query topK_in =
     (case search query (kb_search_options topK_in) of
        Inr results \<Rightarrow>
          Inr \<lparr>kb_success = True, kb_query = Some query, kb_error = None,
               kb_documents =
                 map (\<lambda>r. \<lparr>doc_id = hit_id r, doc_content = hit_content r,
                            doc_score = hit_score r,
                            doc_metadata =
                              Some (case hit_metadata r of None \<Rightarrow> [] | Some m \<Rightarrow> m)\<rparr>)
                     results,
               kb_totalResults = Some (length results)\<rparr>
      | Inl error \<Rightarrow>
          Inr \<lparr>kb_success = False, kb_query = None,
               kb_error = Some (error_message_or_unknown error),
               kb_documents = [], kb_totalResults = None\<rparr>)"

section \<open>Tool approval in CSRService\<close>

text \<open>
  The two calls the service makes on the agent runtime. The runtime is another package;
  it is a parameter: a state of any type and the effect of each call on it.
\<close>

record 'rt runtime_ops =
  approveToolExecution :: "string \<Rightarrow> string \<Rightarrow> 'rt \<Rightarrow> 'rt"
  rejectToolExecution :: "string \<Rightarrow> 'rt \<Rightarrow> 'rt"

text \<open>
  The part of the service the approval path touches: the runtime, the map
  \<open>approvalHandlers\<close> (an entry is a waiter and the \<open>approvedBy\<close> written to it), the
  waiters already resolved, and the event loop: its clock in milliseconds and the pending
  \<open>setTimeout\<close> callbacks, each with its due time and the request id it captured.
\<close>

record 'rt csr_service =
  runtime :: 'rt
  approvalHandlers :: "string \<rightharpoonup> string option"
  resolved_waiters :: "(string \<times> bool \<times> string) list"
  timers :: "(nat \<times> string) list"
  clock :: nat

text \<open>
  The listener on \<open>TOOL_APPROVAL_REQUESTED\<close>; its argument is \<open>event.data?.requestId\<close>.
  \<open>if (requestId)\<close> is false for a missing and for an empty id.
\<close>

definition on_tool_approval_requested :: "string option \<Rightarrow> 'rt csr_service \<Rightarrow> 'rt csr_service" where
  "on_tool_approval_requested requestId st =
     (case requestId of
        None \<Rightarrow> st
      | Some rid \<Rightarrow>
          if rid \<noteq> [] \<and> approvalHandlers st rid \<noteq> None then st
          else if rid \<noteq> [] then st\<lparr>timers := timers st @ [(clock st + 30000, rid)]\<rparr>
          else st)"

text \<open>The body of the timer callback.\<close>

definition auto_approve_callback :: "'rt runtime_ops \<Rightarrow> string \<Rightarrow> 'rt csr_service \<Rightarrow> 'rt csr_service" where
  "auto_approve_callback R requestId st =
     (if approvalHandlers st requestId \<noteq> None then st
      else st\<lparr>runtime := approveToolExecution R requestId ''auto-timeout'' (runtime st)\<rparr>)"

text \<open>
  The event loop lets \<open>dt\<close> milliseconds pass: every callback that is due by then runs, in
  the order it was scheduled, and leaves the queue. No callback is ever cancelled.
\<close>

definition advance :: "'rt runtime_ops \<Rightarrow> nat \<Rightarrow> 'rt csr_service \<Rightarrow> 'rt csr_service" where
  "advance R dt st =
     (let t = clock st + dt;
          due = filter (\<lambda>tm. fst tm \<le> t) (timers st);
          later = filter (\<lambda>tm. \<not> fst tm \<le> t) (timers st)
      in foldl (\<lambda>s tm. auto_approve_callback R (snd tm) s)
               (st\<lparr>clock := t, timers := later\<rparr>) due)"

text \<open>\<open>CSRService.approveTool\<close>\<close>

definition approveTool :: "'rt runtime_ops \<Rightarrow> string \<Rightarrow> bool \<Rightarrow> string \<Rightarrow> 'rt csr_service
    \<Rightarrow> 'rt csr_service" where
  "approveTool R requestId approved approvedBy st =
     (let st1 = st\<lparr>runtime :=
                   (if approved then approveToolExecution R requestId approvedBy (runtime st)
                    else rejectToolExecution R requestId (runtime st))\<rparr>
      in case approvalHandlers st1 requestId of
           None \<Rightarrow> st1
         | Some h \<Rightarrow>
             st1\<lparr>resolved_waiters := resolved_waiters st1 @ [(requestId, approved, approvedBy)],
                 approvalHandlers := (approvalHandlers st1)(requestId := None)\<rparr>)"

text \<open>
  The approve endpoint. The body arrives as JSON; the validation pipe admits it when
  \<open>requestId\<close> and \<open>approvedBy\<close> are strings and \<open>approved\<close> is a boolean.
\<close>

record approve_body =
  body_requestId :: jsval
  body_approved :: jsval
  body_approvedBy :: jsval

record approval_dto =
  dto_requestId :: string
  dto_approved :: bool
  dto_approvedBy :: string

fun validate_approval :: "approve_body \<Rightarrow> approval_dto option" where
  "validate_approval b =
     (case (body_requestId b, body_approved b, body_approvedBy b) of
        (JStr rid, JBool a, JStr by) \<Rightarrow>
          Some \<lparr>dto_requestId = rid, dto_approved = a, dto_approvedBy = by\<rparr>
      | _ \<Rightarrow> None)"

record approve_response =
  success :: bool

datatype http_error = BadRequest

definition approve :: "'rt runtime_ops \<Rightarrow> approval_dto \<Rightarrow> 'rt csr_service
    \<Rightarrow> approve_response \<times> 'rt csr_service" where
  "approve R dto st =
     (let st' = approveTool R (dto_requestId dto) (dto_approved dto) (dto_approvedBy dto) st
      in (\<lparr>success = True\<rparr>, st'))"

definition approve_endpoint :: "'rt runtime_ops \<Rightarrow> approve_body \<Rightarrow> 'rt csr_service
    \<Rightarrow> (http_error + approve_response) \<times> 'rt csr_service" where
  "approve_endpoint R body st =
     (case validate_approval body of
        None \<Rightarrow> (Inl BadRequest, st)
      | Some dto \<Rightarrow> (case approve R dto st of (resp, st') \<Rightarrow> (Inr resp, st')))"

section \<open>Knowledge backend wiring in CSRService\<close>

datatype store_kind = PineconeVectorStore | QdrantVectorStore | MemoryVectorStore

text \<open>A \<open>RAGService\<close> object: its vector store, whether it was initialised, what it indexed.\<close>

record rag_service =
  rag_store :: store_kind
  rag_initialized :: bool
  rag_indexed :: "string list"

text \<open>
  The \<open>RAGService\<close> objects live in a heap (an address is a position in it), because three
  fields hold a reference to one: \<open>this.ragService\<close> of the service, \<open>config.ragService\<close>
  of the runtime, and the \<open>ragService\<close> the agent instance received in its constructor.
\<close>

record csr_wiring =
  heap :: "rag_service list"
  svc_ragService :: nat
  runtime_ragService :: nat
  agent_ragService :: nat
  memory_initialized :: bool

definition new_rag_service :: "store_kind \<Rightarrow> rag_service" where
  "new_rag_service k = \<lparr>rag_store = k, rag_initialized = False, rag_indexed = []\<rparr>"

text \<open>
  The constructor of \<open>CSRService\<close>: one \<open>RAGService\<close> over the store that
  \<open>createVectorStore\<close> selected, handed to runtime and agent.
\<close>

definition construct :: "store_kind \<Rightarrow> csr_wiring" where
  "construct selected =
     \<lparr>heap = [new_rag_service selected],
      svc_ragService = 0, runtime_ragService = 0, agent_ragService = 0,
      memory_initialized = False\<rparr>"

text \<open>
  What the three external initialisations of \<open>initialize\<close> do, in the order they are
  called: \<open>None\<close> when the call returns, the thrown value otherwise.
\<close>

record init_outcomes =
  first_rag_init :: "thrown option"
  fallback_rag_init :: "thrown option"
  memory_init :: "thrown option"

definition mark_initialized :: "nat \<Rightarrow> csr_wiring \<Rightarrow> csr_wiring" where
  "mark_initialized a w =
     (if a < length (heap w)
      then w\<lparr>heap := (heap w)[a := (heap w ! a)\<lparr>rag_initialized := True\<rparr>]\<rparr>
      else w)"

definition memory_initialize :: "init_outcomes \<Rightarrow> csr_wiring \<Rightarrow> thrown option \<times> csr_wiring" where
  "memory_initialize outs w =
     (case memory_init outs of
        None \<Rightarrow> (None, w\<lparr>memory_initialized := True\<rparr>)
      | Some e \<Rightarrow> (Some e, w))"

text \<open>
  \<open>CSRService.initialize\<close>: the value thrown to the caller, if any, and the wiring left.
\<close>

definition initialize :: "init_outcomes \<Rightarrow> csr_wiring \<Rightarrow> thrown option \<times> csr_wiring" where
  "initialize outs w =
     (case first_rag_init outs of
        None \<Rightarrow> memory_initialize outs (mark_initialized (svc_ragService w) w)
      | Some e \<Rightarrow>
          (let a = length (heap w);
               w1 = w\<lparr>heap := heap w @ [new_rag_service MemoryVectorStore],
                      svc_ragService := a\<rparr>
           in case fallback_rag_init outs of
                Some e2 \<Rightarrow> (Some e2, w1)
              | None \<Rightarrow>
                  memory_initialize outs ((mark_initialized a w1)\<lparr>runtime_ragService := a\<rparr>)))"

text \<open>The call of \<open>initialize\<close> in \<open>bootstrap\<close>, with the lines it logs.\<close>

definition bootstrap_initialize :: "init_outcomes \<Rightarrow> csr_wiring
    \<Rightarrow> (log_level \<times> string \<times> thrown option) list \<times> csr_wiring" where
  "bootstrap_initialize outs w =
     (case initialize outs w of
        (None, w') \<Rightarrow> ([(LogInfo, ''CSR service initialized'', None)], w')
      | (Some err, w') \<Rightarrow> ([(LogWarn, ''CSR service init:'', Some err)], w'))"

text \<open>
  \<open>CSRService.ingestDocument\<close>: \<open>index\<close> on \<open>this.ragService\<close>; the ids are the backend's.
\<close>

definition ingestDocument :: "string list \<Rightarrow> string \<Rightarrow> string \<Rightarrow> csr_wiring
    \<Rightarrow> string list \<times> csr_wiring" where
  "ingestDocument ids title content w =
     (let a = svc_ragService w in
      (ids,
       if a < length (heap w)
       then w\<lparr>heap := (heap w)[a := (heap w ! a)
                 \<lparr>rag_indexed := rag_indexed (heap w ! a) @
                                  [title @ [CHR 0x0A, CHR 0x0A] @ content]\<rparr>]\<rparr>
       else w))"

text \<open>
  \<open>CSRController.health\<close>. The runtime's \<open>healthCheck\<close> may be missing, throw, or return
  an object, here a list of keys and values; \<open>{ status: 'ok', ...result }\<close> lets a key of
  the result replace the one written before it.
\<close>

datatype health_check =
    NoHealthCheck
  | HealthCheckThrows thrown
  | HealthCheckReturns "(string \<times> string) list"

fun set_key :: "string \<Rightarrow> string \<Rightarrow> (string \<times> string) list \<Rightarrow> (string \<times> string) list" where
  "set_key k v [] = [(k, v)]"
| "set_key k v (kv # kvs) = (if fst kv = k then (k, v) # kvs else kv # set_key k v kvs)"

definition spread :: "(string \<times> string) list \<Rightarrow> (string \<times> string) list \<Rightarrow> (string \<times> string) list" where
  "spread obj extra = foldl (\<lambda>acc kv. set_key (fst kv) (snd kv) acc) obj extra"

definition health :: "health_check \<Rightarrow> (string \<times> string) list" where
  "health hc =
     (case hc of
        NoHealthCheck \<Rightarrow> [(''status'', ''ok'')]
      | HealthCheckReturns result \<Rightarrow> spread [(''status'', ''ok'')] result
      | HealthCheckThrows e \<Rightarrow> [(''status'', ''degraded'')])"

section \<open>The approval gate of the specification\<close>

datatype resolution = Pending | Approved | Rejected | TimedOut

record approval_request =
  ar_toolName :: string
  ar_args :: string
  ar_createdAt :: nat
  ar_deadline :: nat
  ar_resolution :: resolution
  ar_resolvedBy :: "string option"

type_synonym approval_gate = "string \<rightharpoonup> approval_request"

text \<open>
  Modelled from the spec: \<open>ApprovalGate.request\<close>, which is code of the agent runtime and
  not among the sources. A request is registered pending under its id, with its deadline;
  ids are unique, so an id in use registers nothing.
\<close>

definition gate_request :: "string \<Rightarrow> string \<Rightarrow> string \<Rightarrow> nat \<Rightarrow> nat \<Rightarrow> approval_gate \<Rightarrow> approval_gate" where
  "gate_request rid tool args now timeout g =
     (case g rid of
        Some r \<Rightarrow> g
      | None \<Rightarrow> g(rid \<mapsto> \<lparr>ar_toolName = tool, ar_args = args, ar_createdAt = now,
                            ar_deadline = now + timeout, ar_resolution = Pending,
                            ar_resolvedBy = None\<rparr>))"

text \<open>
  Modelled from the spec: \<open>ApprovalGate.resolve\<close> (section 4.2 and the data model of
  \<open>ApprovalRequest\<close>), absent from the sources. A pending request becomes approved or
  rejected and records who resolved it; every other call is a no-op, never an error.
\<close>

definition gate_resolve :: "string \<Rightarrow> bool \<Rightarrow> string option \<Rightarrow> approval_gate \<Rightarrow> approval_gate" where
  "gate_resolve rid approved resolvedBy g =
     (case g rid of
        None \<Rightarrow> g
      | Some r \<Rightarrow>
          if ar_resolution r = Pending
          then g(rid \<mapsto> r\<lparr>ar_resolution := (if approved then Approved else Rejected),
                           ar_resolvedBy := resolvedBy\<rparr>)
          else g)"

text \<open>
  Modelled from the spec: the gate's deadline expiry (section 4.2), absent from the
  sources. A request still pending at its deadline resolves to timed out.
\<close>

definition gate_expire :: "nat \<Rightarrow> string \<Rightarrow> approval_gate \<Rightarrow> approval_gate" where
  "gate_expire now rid g =
     (case g rid of
        None \<Rightarrow> g
      | Some r \<Rightarrow>
          if ar_resolution r = Pending \<and> ar_deadline r \<le> now
          then g(rid \<mapsto> r\<lparr>ar_resolution := TimedOut\<rparr>)
          else g)"

text \<open>
  Modelled from the spec: the runtime's \<open>approveToolExecution\<close> and
  \<open>rejectToolExecution\<close> forward to the gate's \<open>resolve\<close> (section 4.5).
\<close>

definition gate_ops :: "approval_gate runtime_ops" where
  "gate_ops =
     \<lparr>approveToolExecution = (\<lambda>rid who. gate_resolve rid True (Some who)),
      rejectToolExecution = (\<lambda>rid. gate_resolve rid False None)\<rparr>"

text \<open>
  The service of the sources running on that gate. What can happen, in any order: the
  runtime registers a request and emits \<open>TOOL_APPROVAL_REQUESTED\<close>; the approve endpoint is
  called; time passes (the service's timers that are due fire); the deadline of a request
  fires inside the gate.
\<close>

datatype sys_event =
    ToolNeedsApproval string string string nat
  | ApproveCall approval_dto
  | TimePasses nat
  | DeadlineFires string

fun sys_step :: "sys_event \<Rightarrow> approval_gate csr_service \<Rightarrow> approval_gate csr_service" where
  "sys_step (ToolNeedsApproval rid tool args timeout) st =
     on_tool_approval_requested (Some rid)
       (st\<lparr>runtime := gate_request rid tool args (clock st) timeout (runtime st)\<rparr>)"
| "sys_step (ApproveCall dto) st = snd (approve gate_ops dto st)"
| "sys_step (TimePasses dt) st = advance gate_ops dt st"
| "sys_step (DeadlineFires rid) st = st\<lparr>runtime := gate_expire (clock st) rid (runtime st)\<rparr>"

fun sys_run :: "sys_event list \<Rightarrow> approval_gate csr_service \<Rightarrow> approval_gate csr_service" where
  "sys_run [] st = st"
| "sys_run (e # es) st = sys_run es (sys_step e st)"

definition resolution_of :: "string \<Rightarrow> approval_gate csr_service \<Rightarrow> resolution option" where
  "resolution_of rid st = map_option ar_resolution (runtime st rid)"

text \<open>The number of steps of a run at which the resolution of a registered request changes.\<close>

fun transitions :: "string \<Rightarrow> approval_gate csr_service \<Rightarrow> sys_event list \<Rightarrow> nat" where
  "transitions rid st [] = 0"
| "transitions rid st (e # es) =
     (if resolution_of rid st \<noteq> None \<and> resolution_of rid (sys_step e st) \<noteq> resolution_of rid st
      then 1 else 0) + transitions rid (sys_step e st) es"

text \<open>An approve call for the request: its manual resolution.\<close>

definition resolves :: "string \<Rightarrow> sys_event \<Rightarrow> bool" where
  "resolves rid e = (case e of ApproveCall dto \<Rightarrow> dto_requestId dto = rid | _ \<Rightarrow> False)"



section \<open>Auxiliary notions for the proofs\<close>

text \<open>Two predicates on the gate for the proofs: a request that left pending, a known id.\<close>

definition settled :: "string \<Rightarrow> resolution \<Rightarrow> approval_gate \<Rightarrow> bool" where
  "settled rid v g = (map_option ar_resolution (g rid) = Some v \<and> v \<noteq> Pending)"

definition registered :: "string \<Rightarrow> approval_gate \<Rightarrow> bool" where
  "registered rid g = (g rid \<noteq> None)"

text \<open>
  What can still be added to the resolved waiters of an id: the entries already there, and
  one more while the id has a handler.
\<close>

definition waiter_budget :: "string \<Rightarrow> 'rt csr_service \<Rightarrow> nat" where
  "waiter_budget rid st =
     length (filter (\<lambda>w. fst w = rid) (resolved_waiters st))
     + (if approvalHandlers st rid \<noteq> None then 1 else 0)"



section \<open>Sample data\<close>

text \<open>Concrete inputs on which the properties below are evaluated.\<close>

definition doc_refunds :: kb_document where
  "doc_refunds = \<lparr>doc_id = ''kb-1'', doc_content = ''Full refunds within 30 days'',
                   doc_score = 0.9, doc_metadata = Some [(''title'', ''Refund Policy'')]\<rparr>"

definition doc_shipping :: kb_document where
  "doc_shipping = \<lparr>doc_id = ''kb-2'', doc_content = ''Shipping takes 3 to 5 days'',
                    doc_score = 0.7, doc_metadata = None\<rparr>"

definition doc_returns :: kb_document where
  "doc_returns = \<lparr>doc_id = ''kb-3'', doc_content = ''Returns need the original receipt'',
                   doc_score = 0.6, doc_metadata = Some []\<rparr>"

definition tool_step :: "string \<Rightarrow> kb_document list option \<Rightarrow> agent_step" where
  "tool_step name docs =
     \<lparr>step_action = Some \<lparr>action_type = Some ''use_tool'', action_toolName = Some name\<rparr>,
      step_result = Some \<lparr>result_output = Some \<lparr>out_documents = docs\<rparr>\<rparr>\<rparr>"

definition sample_steps :: "agent_step list" where
  "sample_steps =
     [tool_step ''searchKnowledgeBase'' (Some [doc_refunds, doc_shipping]),
      tool_step ''lookupOrder'' (Some [doc_shipping]),
      \<lparr>step_action = None, step_result = None\<rparr>,
      tool_step ''searchKnowledgeBase'' None,
      tool_step ''searchKnowledgeBase'' (Some [doc_returns])]"

definition sample_execute :: executor where
  "sample_execute agent message opts =
     Inr \<lparr>res_response = Some ''Here is what I found.'', res_executionId = Some ''exec-1'',
          res_steps = sample_steps, res_duration = Some 42\<rparr>"

definition failing_execute :: executor where
  "failing_execute agent message opts =
     Inl (ErrorObject ''Error'' ''connect ECONNREFUSED 10.0.0.5:5432'')"

definition failing_search :: rag_search where
  "failing_search query opts = Inl (ErrorObject ''Error'' ''index not ready'')"

definition idle_service :: "approval_gate csr_service" where
  "idle_service =
     \<lparr>runtime = Map.empty, approvalHandlers = Map.empty, resolved_waiters = [],
      timers = [], clock = 1000\<rparr>"

definition pending_refund :: approval_request where
  "pending_refund = \<lparr>ar_toolName = ''processRefund'', ar_args = ''ORD-12345'',
      ar_createdAt = 1000, ar_deadline = 61000, ar_resolution = Pending, ar_resolvedBy = None\<rparr>"

definition refund_race :: "sys_event list" where
  "refund_race =
     [ApproveCall \<lparr>dto_requestId = ''req-1'', dto_approved = False, dto_approvedBy = ''alice''\<rparr>,
      TimePasses 30000,
      ApproveCall \<lparr>dto_requestId = ''req-1'', dto_approved = True, dto_approvedBy = ''bob''\<rparr>,
      TimePasses 30000,
      DeadlineFires ''req-1'']"

definition refund_requested :: "approval_gate csr_service" where
  "refund_requested =
     sys_step (ToolNeedsApproval ''req-1'' ''processRefund'' ''ORD-12345'' 60000) idle_service"

definition remote_wiring :: csr_wiring where
  "remote_wiring = construct PineconeVectorStore"

definition remote_down :: init_outcomes where
  "remote_down = \<lparr>first_rag_init = Some (ErrorObject ''Error'' ''Pinecone unreachable''),
                   fallback_rag_init = None, memory_init = None\<rparr>"

section \<open>Properties\<close>

subsection \<open>The loops of chat\<close>

lemma push_documents_append: "push_documents sources docs = sources @ docs"
  by (induction docs arbitrary: sources) simp_all

lemma collect_sources_concat:
  "collect_sources sources steps =
     sources @ concat (map (\<lambda>s. case step_documents s of Some ds \<Rightarrow> ds | None \<Rightarrow> [])
                           (filter is_kb_search steps))"
  by (induction steps arbitrary: sources)
     (simp_all add: push_documents_append split: option.splits)

subsection \<open>Rendering of natural numbers\<close>

lemma digit_char_inj: "a < 10 \<Longrightarrow> b < 10 \<Longrightarrow> digit_char a = digit_char b \<Longrightarrow> a = b"
proof -
  assume a: "a < 10" and b: "b < 10" and eq: "digit_char a = digit_char b"
  have d: "distinct ''0123456789''" by simp
  have "a < length ''0123456789''" "b < length ''0123456789''" using a b by simp_all
  with d eq show "a = b" unfolding digit_char_def by (simp only: nth_eq_iff_index_eq)
qed

lemma decimal_nonempty: "decimal n \<noteq> []"
  by (subst decimal.simps) simp

lemma decimal_small: "n < 10 \<Longrightarrow> decimal n = [digit_char n]"
  by (subst decimal.simps) simp

lemma decimal_large: "\<not> n < 10 \<Longrightarrow> decimal n = decimal (n div 10) @ [digit_char (n mod 10)]"
  by (subst decimal.simps) simp

lemma decimal_inj: "decimal n = decimal m \<Longrightarrow> n = m"
proof (induction n arbitrary: m rule: decimal.induct)
  case (1 n)
  show ?case
  proof (cases "n < 10")
    case small_n: True
    show ?thesis
    proof (cases "m < 10")
      case True
      with small_n "1.prems" show ?thesis
        by (simp add: decimal_small digit_char_inj)
    next
      case False
      with small_n "1.prems" decimal_nonempty [of "m div 10"] show ?thesis
        by (simp add: decimal_small decimal_large)
    qed
  next
    case large_n: False
    show ?thesis
    proof (cases "m < 10")
      case True
      with large_n "1.prems" decimal_nonempty [of "n div 10"] show ?thesis
        by (simp add: decimal_small decimal_large)
    next
      case False
      with large_n "1.prems" have eq: "decimal (n div 10) = decimal (m div 10)"
        and dg: "digit_char (n mod 10) = digit_char (m mod 10)"
        by (simp_all add: decimal_large)
      from "1.IH" [OF large_n eq] have q: "n div 10 = m div 10" .
      from dg have r: "n mod 10 = m mod 10" by (intro digit_char_inj) simp_all
      from q r show ?thesis by (metis div_mult_mod_eq)
    qed
  qed
qed

subsection \<open>Sources of a chat response\<close>

text \<open>
  Claim C5. Whenever the runtime returns a result, the \<open>sources\<close> of the chat response are
  the documents of the steps that used the tool \<open>searchKnowledgeBase\<close>, flattened in step
  order with their four fields, and the field is absent, never an empty list, when there
  is no such document.
\<close>

theorem chat_sources_flatten_search_documents:
  assumes "execute ''csr-agent'' message
             \<lparr>opt_sessionId = session_id_for now sessionId, opt_userId = userId,
              opt_enableMemory = True, opt_enableRAG = True\<rparr> = Inr result"
  shows "\<exists>resp. chat execute now message sessionId userId = Inr resp
           \<and> cr_sources resp = spec_sources (res_steps result)
           \<and> cr_sources resp \<noteq> Some []"
  using assms
  by (simp add: chat_def Let_def collect_sources_concat spec_sources_def)

theorem chat_sources_flatten_search_documents_witness:
  "\<exists>resp. chat sample_execute 1700000000000 ''refund?'' (Some ''s-1'') None = Inr resp
     \<and> cr_sources resp = Some [doc_refunds, doc_shipping, doc_returns]"
  using chat_sources_flatten_search_documents
          [of sample_execute "''refund?''" 1700000000000 "Some ''s-1''" None
              "\<lparr>res_response = Some ''Here is what I found.'', res_executionId = Some ''exec-1'',
                res_steps = sample_steps, res_duration = Some 42\<rparr>"]
  by (auto simp add: sample_execute_def sample_steps_def tool_step_def spec_sources_def
        is_kb_search_def step_documents_def)

subsection \<open>Session ids\<close>

text \<open>
  Claim C6, as the code has it. The session id of a response is the one supplied when that
  is a non-empty string. When it is omitted or empty the id is \<open>session-\<close> followed by the
  clock reading in milliseconds, whatever the client sent, and two generated ids are equal
  exactly when the two clock readings are.
\<close>

theorem chat_session_id_assignment:
  "(\<forall>resp. chat execute now message sessionId userId = Inr resp \<longrightarrow>
       cr_sessionId resp = session_id_for now sessionId)
   \<and> (\<forall>s. s \<noteq> [] \<longrightarrow> session_id_for now (Some s) = s)
   \<and> session_id_for now None = ''session-'' @ decimal now
   \<and> session_id_for now (Some []) = ''session-'' @ decimal now
   \<and> (session_id_for now None = session_id_for now' None \<longleftrightarrow> now = now')"
  by (auto simp add: chat_def Let_def session_id_for_def split: sum.splits dest: decimal_inj)

theorem chat_session_id_assignment_witness:
  "(\<exists>resp. chat sample_execute 1700000000000 ''hello'' (Some ''customer-1'') None = Inr resp
       \<and> cr_sessionId resp = ''customer-1'')
   \<and> session_id_for 1700000000000 None = ''session-1700000000000''
   \<and> session_id_for 1700000000000 None \<noteq> session_id_for 1700000000001 None"
  using chat_session_id_assignment
          [of sample_execute 1700000000000 "''hello''" "Some ''customer-1''" None 1700000000001]
  by (auto simp add: chat_def Let_def sample_execute_def session_id_for_def decimal.simps
        digit_char_def)

text \<open>
  Two chat calls without a session id that read the same millisecond get the same session
  id, for different users; and an empty session id is not echoed back.
\<close>

theorem chat_same_millisecond_counterexample:
  "map_sum id cr_sessionId (chat sample_execute 1700000000000 ''hello'' None (Some ''alice''))
     = Inr ''session-1700000000000''
   \<and> map_sum id cr_sessionId (chat sample_execute 1700000000000 ''my order?'' None (Some ''bob''))
     = Inr ''session-1700000000000''
   \<and> map_sum id cr_sessionId (chat sample_execute 1700000000000 ''hello'' (Some []) None)
     = Inr ''session-1700000000000''"
  by (simp add: chat_def Let_def sample_execute_def session_id_for_def decimal.simps
        digit_char_def)

subsection \<open>A failing knowledge-base search\<close>

text \<open>
  Claim C8. \<open>searchKnowledgeBase\<close> always returns a result; when the search of the
  knowledge base throws, the result has \<open>success\<close> false, an error text and no documents.
\<close>

theorem searchKnowledgeBase_contains_failure:
  "\<exists>r. searchKnowledgeBase search query topK = Inr r
      \<and> (\<forall>err. search query (kb_search_options topK) = Inl err \<longrightarrow>
            r = \<lparr>kb_success = False, kb_query = None,
                  kb_error = Some (error_message_or_unknown err),
                  kb_documents = [], kb_totalResults = None\<rparr>)"
  by (cases "search query (kb_search_options topK)") (simp_all add: searchKnowledgeBase_def)

theorem searchKnowledgeBase_contains_failure_witness:
  "failing_search ''refund policy'' (kb_search_options None)
     = Inl (ErrorObject ''Error'' ''index not ready'')
   \<and> searchKnowledgeBase failing_search ''refund policy'' None =
       Inr \<lparr>kb_success = False, kb_query = None, kb_error = Some ''index not ready'',
            kb_documents = [], kb_totalResults = None\<rparr>"
  using searchKnowledgeBase_contains_failure [of failing_search "''refund policy''" None]
  by (auto simp add: failing_search_def)

subsection \<open>WebSocket messages without a text\<close>

text \<open>
  Claim C9. A \<open>message\<close> event whose data is missing, or whose \<open>text\<close> is missing or not a
  string, makes the gateway send one \<open>error\<close> frame to that client after the call of the
  base class; it neither closes the connection nor starts the chat.
\<close>

theorem handleMessage_invalid_text:
  assumes "msg_event message = ''message''"
    and "case msg_data message of None \<Rightarrow> True | Some d \<Rightarrow> \<not> is_js_string (data_text d)"
  shows "handleMessage clientId message =
           [SuperHandleMessage clientId message,
            SendToClient clientId ''error'' ''Invalid message: text is required'']
         \<and> CloseConnection clientId \<notin> set (handleMessage clientId message)
         \<and> (\<forall>t s u. HandleChatMessage clientId t s u \<notin> set (handleMessage clientId message))"
  using assms by (auto simp add: handleMessage_def Let_def split: option.splits)

theorem handleMessage_invalid_text_witness:
  "handleMessage ''client-7''
     \<lparr>msg_event = ''message'',
      msg_data = Some \<lparr>data_text = JNum 42, data_sessionId = JStr ''s-1'',
                       data_userId = JUndefined\<rparr>\<rparr>
   = [SuperHandleMessage ''client-7''
        \<lparr>msg_event = ''message'',
         msg_data = Some \<lparr>data_text = JNum 42, data_sessionId = JStr ''s-1'',
                          data_userId = JUndefined\<rparr>\<rparr>,
      SendToClient ''client-7'' ''error'' ''Invalid message: text is required'']"
  using handleMessage_invalid_text
          [of "\<lparr>msg_event = ''message'',
                msg_data = Some \<lparr>data_text = JNum 42, data_sessionId = JStr ''s-1'',
                                 data_userId = JUndefined\<rparr>\<rparr>" "''client-7''"]
  by simp

subsection \<open>The approve endpoint\<close>

text \<open>
  Claim C10. For every body that passes validation the approve endpoint answers
  \<open>{success: true}\<close>, whatever the state of the service and of the runtime, so also when
  the request id is unknown. The calls on the runtime are taken to return.
\<close>

theorem approve_endpoint_succeeds:
  assumes "validate_approval body = Some dto"
  shows "fst (approve_endpoint R body st) = Inr \<lparr>success = True\<rparr>"
  using assms by (simp add: approve_endpoint_def approve_def Let_def)

theorem approve_endpoint_succeeds_witness:
  "runtime idle_service ''no-such-request'' = None
   \<and> approve_endpoint gate_ops
        \<lparr>body_requestId = JStr ''no-such-request'', body_approved = JBool True,
         body_approvedBy = JStr ''alice''\<rparr> idle_service
     = (Inr \<lparr>success = True\<rparr>, idle_service)"
  using approve_endpoint_succeeds
          [of "\<lparr>body_requestId = JStr ''no-such-request'', body_approved = JBool True,
                body_approvedBy = JStr ''alice''\<rparr>"
              "\<lparr>dto_requestId = ''no-such-request'', dto_approved = True,
                dto_approvedBy = ''alice''\<rparr>" gate_ops idle_service]
  by (simp add: approve_endpoint_def approve_def approveTool_def gate_ops_def
        gate_resolve_def idle_service_def Let_def)

subsection \<open>What a failed chat turn sends\<close>

text \<open>
  Claim C4, as the code has it. When the runtime throws during a chat turn, the WebSocket
  gateway sends an \<open>error\<close> frame whose message is the message of the thrown \<open>Error\<close>, and
  \<open>Unknown error\<close> only when the thrown value is not an \<open>Error\<close>; the SSE endpoint writes
  one \<open>error\<close> frame with \<open>String(error)\<close> and ends the stream; neither of the two writes a
  line to the log; the REST endpoint lets the thrown value through to the framework.
\<close>

theorem chat_failure_reaches_transport:
  assumes "execute ''csr-agent'' text
             \<lparr>opt_sessionId = session_id_for now sessionId, opt_userId = userId,
              opt_enableMemory = True, opt_enableRAG = True\<rparr> = Inl err"
  shows "handleChatMessage execute now True text sessionId userId
           = [Emit (Thinking ''Processing your request...''),
              Emit (ErrorFrame (error_message_or_unknown err))]
         \<and> chatStream execute now
             \<lparr>req_message = text, req_sessionId = sessionId, req_userId = userId\<rparr>
           = [Emit (SetHeader ''Content-Type'' ''text/event-stream''),
              Emit (SetHeader ''Cache-Control'' ''no-cache''),
              Emit (SetHeader ''Connection'' ''keep-alive''),
              Emit (Write (SseError (string_of_thrown err))), Emit End]
         \<and> (\<forall>level line. LogLine level line
                \<notin> set (handleChatMessage execute now True text sessionId userId))
         \<and> (\<forall>level line. LogLine level line
                \<notin> set (chatStream execute now
                         \<lparr>req_message = text, req_sessionId = sessionId, req_userId = userId\<rparr>))
         \<and> chat_endpoint execute now
             \<lparr>req_message = text, req_sessionId = sessionId, req_userId = userId\<rparr> = Inl err"
  using assms
  by (simp add: handleChatMessage_def chatStream_def chat_endpoint_def chat_def Let_def)

theorem chat_failure_reaches_transport_witness:
  "handleChatMessage failing_execute 5 True ''hello'' None None
     = [Emit (Thinking ''Processing your request...''),
        Emit (ErrorFrame ''connect ECONNREFUSED 10.0.0.5:5432'')]
   \<and> handleChatMessage (\<lambda>a m opts. Inl (Thrown ''db down'')) 5 True ''hello'' None None
     = [Emit (Thinking ''Processing your request...''), Emit (ErrorFrame ''Unknown error'')]
   \<and> chatStream (\<lambda>a m opts. Inl (Thrown ''db down'')) 5
        \<lparr>req_message = ''hello'', req_sessionId = None, req_userId = None\<rparr>
     = [Emit (SetHeader ''Content-Type'' ''text/event-stream''),
        Emit (SetHeader ''Cache-Control'' ''no-cache''),
        Emit (SetHeader ''Connection'' ''keep-alive''),
        Emit (Write (SseError ''db down'')), Emit End]"
  using chat_failure_reaches_transport
          [of failing_execute "''hello''" 5 None None
              "ErrorObject ''Error'' ''connect ECONNREFUSED 10.0.0.5:5432''"]
        chat_failure_reaches_transport
          [of "\<lambda>a m opts. Inl (Thrown ''db down'')" "''hello''" 5 None None
              "Thrown ''db down''"]
  by (simp add: failing_execute_def)

text \<open>
  The text of an internal exception, here a database address, is delivered word for word
  in the WebSocket error frame and in the SSE frame, and these frames are all that either
  handler does: no line is logged.
\<close>

theorem raw_exception_text_counterexample:
  "handleChatMessage failing_execute 5 True ''hello'' None None
     = [Emit (Thinking ''Processing your request...''),
        Emit (ErrorFrame ''connect ECONNREFUSED 10.0.0.5:5432'')]
   \<and> chatStream failing_execute 5
        \<lparr>req_message = ''hello'', req_sessionId = None, req_userId = None\<rparr>
     = [Emit (SetHeader ''Content-Type'' ''text/event-stream''),
        Emit (SetHeader ''Cache-Control'' ''no-cache''),
        Emit (SetHeader ''Connection'' ''keep-alive''),
        Emit (Write (SseError ''Error: connect ECONNREFUSED 10.0.0.5:5432'')), Emit End]"
  by (simp add: handleChatMessage_def chatStream_def chat_def Let_def failing_execute_def)

subsection \<open>Fallback to the in-memory knowledge backend\<close>

lemma set_key_other: "k \<noteq> k' \<Longrightarrow> map_of (set_key k v kvs) k' = map_of kvs k'"
  by (induction kvs) auto

lemma spread_keeps: "k \<notin> fst ` set extra \<Longrightarrow> map_of (spread obj extra) k = map_of obj k"
  unfolding spread_def
  by (induction extra arbitrary: obj) (auto simp add: set_key_other)

text \<open>
  Claim C7, as the code has it. When the first \<open>initialize\<close> of the RAG service throws and
  the initialisation of the in-memory fallback and of the memory manager return,
  \<open>CSRService.initialize\<close> returns without throwing; the service and the configuration of
  the runtime then refer to a new, initialised \<open>RAGService\<close> over a \<open>MemoryVectorStore\<close>,
  the objects that existed before are untouched, and \<open>ingestDocument\<close> indexes into the
  new one. Nothing is logged about the downgrade: the only line is the one \<open>bootstrap\<close>
  writes after every successful \<open>initialize\<close>. \<open>health\<close> does not look at the backend: its
  status is \<open>ok\<close> when the runtime has no health check, or one that returns without a
  \<open>status\<close> of its own.
\<close>

theorem initialize_falls_back_to_memory_store:
  assumes "first_rag_init outs = Some e"
    and "fallback_rag_init outs = None"
    and "memory_init outs = None"
  shows "fst (initialize outs w) = None
         \<and> svc_ragService (snd (initialize outs w)) = length (heap w)
         \<and> runtime_ragService (snd (initialize outs w)) = length (heap w)
         \<and> heap (snd (initialize outs w)) ! length (heap w)
             = \<lparr>rag_store = MemoryVectorStore, rag_initialized = True, rag_indexed = []\<rparr>
         \<and> take (length (heap w)) (heap (snd (initialize outs w))) = heap w
         \<and> fst (bootstrap_initialize outs w) = [(LogInfo, ''CSR service initialized'', None)]
         \<and> rag_indexed (heap (snd (ingestDocument ids title content (snd (initialize outs w))))
                          ! length (heap w))
             = [title @ [CHR 0x0A, CHR 0x0A] @ content]
         \<and> map_of (health NoHealthCheck) ''status'' = Some ''ok''
         \<and> (\<forall>result. ''status'' \<notin> fst ` set result \<longrightarrow>
               map_of (health (HealthCheckReturns result)) ''status'' = Some ''ok'')"
  using assms
  by (simp add: initialize_def memory_initialize_def mark_initialized_def Let_def
        new_rag_service_def bootstrap_initialize_def ingestDocument_def health_def
        spread_keeps nth_append)

theorem initialize_falls_back_to_memory_store_witness:
  "fst (initialize remote_down remote_wiring) = None
   \<and> heap (snd (initialize remote_down remote_wiring))
      = [\<lparr>rag_store = PineconeVectorStore, rag_initialized = False, rag_indexed = []\<rparr>,
         \<lparr>rag_store = MemoryVectorStore, rag_initialized = True, rag_indexed = []\<rparr>]
   \<and> svc_ragService (snd (initialize remote_down remote_wiring)) = 1
   \<and> runtime_ragService (snd (initialize remote_down remote_wiring)) = 1"
  using initialize_falls_back_to_memory_store
          [of remote_down "ErrorObject ''Error'' ''Pinecone unreachable''" remote_wiring]
  by (simp add: remote_down_def remote_wiring_def construct_def new_rag_service_def initialize_def memory_initialize_def
        mark_initialized_def Let_def)

text \<open>
  With Pinecone configured and unreachable, the log after \<open>initialize\<close> holds one info line
  and no warning. When the fallback's own initialisation throws too, the caller of
  \<open>initialize\<close> does see a failure; and \<open>health\<close> reports the status of the runtime's health
  check, or \<open>degraded\<close> when that check throws.
\<close>

theorem silent_fallback_counterexample:
  "fst (bootstrap_initialize remote_down remote_wiring)
     = [(LogInfo, ''CSR service initialized'', None)]
   \<and> fst (initialize (remote_down\<lparr>fallback_rag_init := Some (Thrown ''null'')\<rparr>) remote_wiring)
     = Some (Thrown ''null'')
   \<and> health (HealthCheckReturns [(''status'', ''unhealthy'')]) = [(''status'', ''unhealthy'')]
   \<and> health (HealthCheckThrows (Thrown ''null'')) = [(''status'', ''degraded'')]"
  by (simp add: remote_down_def remote_wiring_def construct_def new_rag_service_def initialize_def memory_initialize_def
        mark_initialized_def Let_def bootstrap_initialize_def health_def spread_def)

text \<open>
  The agent instance keeps the reference it received in its constructor: \<open>initialize\<close>
  never writes it.
\<close>

lemma agent_keeps_first_rag_service:
  "agent_ragService (snd (initialize outs w)) = agent_ragService w"
  by (simp add: initialize_def memory_initialize_def mark_initialized_def Let_def
      split: option.splits)

subsection \<open>One resolution per approval request\<close>

lemma runtime_on_tool_approval_requested [simp]:
  "runtime (on_tool_approval_requested requestId st) = runtime st"
  by (simp add: on_tool_approval_requested_def split: option.splits)

lemma runtime_approveTool:
  "runtime (approveTool R rid approved who st)
     = (if approved then approveToolExecution R rid who (runtime st)
        else rejectToolExecution R rid (runtime st))"
  by (simp add: approveTool_def Let_def split: option.splits)

text \<open>A property of the runtime that every call on it keeps is kept by the service.\<close>

lemma auto_approve_callback_keeps:
  assumes "\<And>rid who g. P g \<Longrightarrow> P (approveToolExecution R rid who g)"
    and "P (runtime st)"
  shows "P (runtime (auto_approve_callback R rid st))"
  using assms by (simp add: auto_approve_callback_def)

lemma run_callbacks_keeps:
  assumes "\<And>rid who g. P g \<Longrightarrow> P (approveToolExecution R rid who g)"
  shows "P (runtime st) \<Longrightarrow>
         P (runtime (foldl (\<lambda>s tm. auto_approve_callback R (snd tm) s) st due))"
proof (induction due arbitrary: st)
  case Nil
  then show ?case by simp
next
  case (Cons tm due)
  have "P (runtime (auto_approve_callback R (snd tm) st))"
    using assms Cons.prems by (simp add: auto_approve_callback_def)
  then show ?case using Cons.IH by simp
qed

lemma advance_keeps:
  assumes "\<And>rid who g. P g \<Longrightarrow> P (approveToolExecution R rid who g)"
    and "P (runtime st)"
  shows "P (runtime (advance R dt st))"
  unfolding advance_def Let_def
  by (rule run_callbacks_keeps [where P = P and R = R]) (simp_all add: assms)

lemma gate_resolve_settled: "settled rid v g \<Longrightarrow> settled rid v (gate_resolve rid' a who g)"
  by (auto simp add: settled_def gate_resolve_def split: option.splits)

lemma gate_expire_settled: "settled rid v g \<Longrightarrow> settled rid v (gate_expire now rid' g)"
  by (auto simp add: settled_def gate_expire_def split: option.splits)

lemma gate_request_settled:
  "settled rid v g \<Longrightarrow> settled rid v (gate_request rid' tool args now timeout g)"
  by (auto simp add: settled_def gate_request_def split: option.splits)

lemma gate_resolve_registered: "registered rid g \<Longrightarrow> registered rid (gate_resolve rid' a who g)"
  by (auto simp add: registered_def gate_resolve_def split: option.splits)

lemma gate_expire_registered: "registered rid g \<Longrightarrow> registered rid (gate_expire now rid' g)"
  by (auto simp add: registered_def gate_expire_def split: option.splits)

lemma gate_request_registered:
  "registered rid g \<Longrightarrow> registered rid (gate_request rid' tool args now timeout g)"
  by (auto simp add: registered_def gate_request_def split: option.splits)

lemma sys_step_settled:
  assumes "settled rid v (runtime st)"
  shows "settled rid v (runtime (sys_step e st))"
proof (cases e)
  case (ToolNeedsApproval rid' tool args timeout)
  with assms show ?thesis by (simp add: gate_request_settled)
next
  case (ApproveCall dto)
  with assms show ?thesis
    by (simp add: approve_def Let_def runtime_approveTool gate_ops_def gate_resolve_settled)
next
  case (TimePasses dt)
  have "settled rid v (runtime (advance gate_ops dt st))"
    by (rule advance_keeps [where P = "settled rid v"])
       (simp_all add: gate_ops_def gate_resolve_settled assms)
  with TimePasses show ?thesis by simp
next
  case (DeadlineFires rid')
  with assms show ?thesis by (simp add: gate_expire_settled)
qed

lemma sys_step_registered:
  assumes "registered rid (runtime st)"
  shows "registered rid (runtime (sys_step e st))"
proof (cases e)
  case (ToolNeedsApproval rid' tool args timeout)
  with assms show ?thesis by (simp add: gate_request_registered)
next
  case (ApproveCall dto)
  with assms show ?thesis
    by (simp add: approve_def Let_def runtime_approveTool gate_ops_def gate_resolve_registered)
next
  case (TimePasses dt)
  have "registered rid (runtime (advance gate_ops dt st))"
    by (rule advance_keeps [where P = "registered rid"])
       (simp_all add: gate_ops_def gate_resolve_registered assms)
  with TimePasses show ?thesis by simp
next
  case (DeadlineFires rid')
  with assms show ?thesis by (simp add: gate_expire_registered)
qed

lemma sys_run_settled:
  "settled rid v (runtime st) \<Longrightarrow> settled rid v (runtime (sys_run es st))"
  by (induction es arbitrary: st) (simp_all add: sys_step_settled)

lemma settled_resolution_of:
  "settled rid v (runtime st) \<longleftrightarrow> resolution_of rid st = Some v \<and> v \<noteq> Pending"
  by (simp add: settled_def resolution_of_def)

lemma registered_resolution_of:
  "registered rid (runtime st) \<longleftrightarrow> resolution_of rid st \<noteq> None"
  by (simp add: registered_def resolution_of_def)

lemma transitions_settled:
  "settled rid v (runtime st) \<Longrightarrow> transitions rid st es = 0"
proof (induction es arbitrary: st)
  case Nil
  then show ?case by simp
next
  case (Cons e es)
  from Cons.prems have next_settled: "settled rid v (runtime (sys_step e st))"
    by (rule sys_step_settled)
  with Cons.prems have "resolution_of rid (sys_step e st) = resolution_of rid st"
    by (simp add: settled_resolution_of)
  with Cons.IH [OF next_settled] show ?case by simp
qed

text \<open>One step of a registered request: it stays as it is, or it leaves pending for good.\<close>

lemma sys_step_changes:
  assumes "resolution_of rid st \<noteq> None"
    and "resolution_of rid (sys_step e st) \<noteq> resolution_of rid st"
  shows "resolution_of rid st = Some Pending
         \<and> (\<exists>v. settled rid v (runtime (sys_step e st)))"
proof -
  from assms(1) obtain u where u: "resolution_of rid st = Some u" by auto
  have pending: "u = Pending"
  proof (rule ccontr)
    assume "u \<noteq> Pending"
    with u have "settled rid u (runtime st)" by (simp add: settled_resolution_of)
    then have "settled rid u (runtime (sys_step e st))" by (rule sys_step_settled)
    with u assms(2) show False by (simp add: settled_resolution_of)
  qed
  from assms(1) have "registered rid (runtime (sys_step e st))"
    by (intro sys_step_registered) (simp add: registered_resolution_of)
  then obtain v where v: "resolution_of rid (sys_step e st) = Some v"
    by (auto simp add: registered_resolution_of)
  with u pending assms(2) have "v \<noteq> Pending" by auto
  with v have "settled rid v (runtime (sys_step e st))" by (simp add: settled_resolution_of)
  with u pending show ?thesis by blast
qed

lemma transitions_at_most_once: "transitions rid st es \<le> 1"
proof (induction es arbitrary: st)
  case Nil
  then show ?case by simp
next
  case (Cons e es)
  show ?case
  proof (cases "resolution_of rid st \<noteq> None
                \<and> resolution_of rid (sys_step e st) \<noteq> resolution_of rid st")
    case True
    then obtain v where "settled rid v (runtime (sys_step e st))"
      using sys_step_changes by blast
    then have "transitions rid (sys_step e st) es = 0" by (rule transitions_settled)
    with True show ?thesis by simp
  next
    case False
    with Cons.IH [of "sys_step e st"] show ?thesis by auto
  qed
qed

lemma approve_call_resolves:
  assumes "resolution_of rid st = Some Pending" and "dto_requestId dto = rid"
  shows "resolution_of rid (sys_step (ApproveCall dto) st)
           = Some (if dto_approved dto then Approved else Rejected)"
  using assms
  by (auto simp add: resolution_of_def approve_def Let_def runtime_approveTool gate_ops_def
        gate_resolve_def)

lemma deadline_resolves:
  assumes "runtime st rid = Some r" and "ar_resolution r = Pending" and "ar_deadline r \<le> clock st"
  shows "resolution_of rid (sys_step (DeadlineFires rid) st) = Some TimedOut"
  using assms by (simp add: resolution_of_def gate_expire_def)

lemma transitions_exactly_once:
  assumes "resolution_of rid st = Some Pending" and "\<exists>e \<in> set es. resolves rid e"
  shows "transitions rid st es = 1"
  using assms
proof (induction es arbitrary: st)
  case Nil
  then show ?case by simp
next
  case (Cons e es)
  let ?st' = "sys_step e st"
  show ?case
  proof (cases "resolution_of rid ?st' = resolution_of rid st")
    case True
    have "\<not> resolves rid e"
    proof
      assume "resolves rid e"
      then obtain dto where e: "e = ApproveCall dto" and rid: "dto_requestId dto = rid"
        by (cases e) (simp_all add: resolves_def)
      from approve_call_resolves [OF Cons.prems(1) rid]
      have "resolution_of rid (sys_step (ApproveCall dto) st) \<noteq> Some Pending"
        by (cases "dto_approved dto") (simp_all del: sys_step.simps)
      with e True Cons.prems(1) show False by (simp del: sys_step.simps)
    qed
    with Cons.prems(2) have later: "\<exists>e \<in> set es. resolves rid e" by simp
    from True Cons.prems(1) have still: "resolution_of rid ?st' = Some Pending"
      by (simp del: sys_step.simps)
    from Cons.IH [OF still later] have "transitions rid ?st' es = 1" .
    with True show ?thesis by (simp del: sys_step.simps)
  next
    case False
    with Cons.prems(1) have "resolution_of rid st \<noteq> None"
      and "resolution_of rid ?st' \<noteq> resolution_of rid st"
      by simp_all
    from sys_step_changes [OF this] obtain v where "settled rid v (runtime ?st')" by blast
    then have "transitions rid ?st' es = 0" by (rule transitions_settled)
    with False Cons.prems(1) show ?thesis by (simp del: sys_step.simps)
  qed
qed

text \<open>A waiter is resolved when its handler is removed, and no step adds a handler.\<close>

lemma waiter_budget_requested [simp]:
  "waiter_budget rid (on_tool_approval_requested requestId st) = waiter_budget rid st"
  by (simp add: waiter_budget_def on_tool_approval_requested_def split: option.splits)

lemma waiter_budget_callback [simp]:
  "waiter_budget rid (auto_approve_callback R rid' st) = waiter_budget rid st"
  by (simp add: waiter_budget_def auto_approve_callback_def)

lemma waiter_budget_callbacks [simp]:
  "waiter_budget rid (foldl (\<lambda>s tm. auto_approve_callback R (snd tm) s) st due)
     = waiter_budget rid st"
  by (induction due arbitrary: st) simp_all

lemma waiter_budget_advance [simp]:
  "waiter_budget rid (advance R dt st) = waiter_budget rid st"
  by (simp add: advance_def Let_def) (simp add: waiter_budget_def)

lemma waiter_budget_approveTool [simp]:
  "waiter_budget rid (approveTool R rid' approved who st) = waiter_budget rid st"
  by (simp add: waiter_budget_def approveTool_def Let_def split: option.splits)

lemma waiter_budget_sys_step [simp]:
  "waiter_budget rid (sys_step e st) = waiter_budget rid st"
  by (cases e) (simp_all add: approve_def Let_def, simp_all add: waiter_budget_def)

lemma waiter_budget_sys_run: "waiter_budget rid (sys_run es st) = waiter_budget rid st"
  by (induction es arbitrary: st) simp_all

lemma waiters_resolved_once:
  "length (filter (\<lambda>w. fst w = rid) (resolved_waiters (sys_run es st)))
     \<le> length (filter (\<lambda>w. fst w = rid) (resolved_waiters st))
        + (if approvalHandlers st rid \<noteq> None then 1 else 0)"
  using waiter_budget_sys_run [of rid es st] by (simp add: waiter_budget_def split: if_splits)

text \<open>
  The service never cancels its timer. After a manual rejection the callback still asks
  the runtime to approve; what that call does is the runtime's decision.
\<close>

lemma timer_fires_after_manual_resolution:
  assumes "rid \<noteq> []" and "approvalHandlers st = Map.empty" and "timers st = []"
  shows "runtime (advance R 30000
                    (approveTool R rid False who (on_tool_approval_requested (Some rid) st)))
         = approveToolExecution R rid ''auto-timeout'' (rejectToolExecution R rid (runtime st))"
  using assms
  by (simp add: on_tool_approval_requested_def approveTool_def advance_def
        auto_approve_callback_def Let_def)

text \<open>
  Claim C1, for the service of the sources running on the gate of the specification. Along
  every sequence of registrations, approve calls, passing time and gate deadlines, the
  resolution of a request changes at most once, and exactly once when the request is
  pending and an approve call for it is made. Whatever comes first wins: a request that
  has left pending keeps its resolution, so a later approve call, a later deadline and the
  service's own 30 second timer are no-ops; none of them is an error, since every step
  returns a state. The waiter the service keeps for an id is resolved at most once as
  well.
\<close>

theorem approval_resolves_exactly_once:
  "transitions rid st es \<le> 1
   \<and> (resolution_of rid st = Some Pending \<and> (\<exists>e \<in> set es. resolves rid e)
        \<longrightarrow> transitions rid st es = 1)
   \<and> (\<forall>v. resolution_of rid st = Some v \<and> v \<noteq> Pending
        \<longrightarrow> resolution_of rid (sys_run es st) = Some v)
   \<and> (resolution_of rid st = Some Pending \<and> dto_requestId dto = rid
        \<longrightarrow> resolution_of rid (sys_run (ApproveCall dto # es) st)
              = Some (if dto_approved dto then Approved else Rejected))
   \<and> (\<forall>r. runtime st rid = Some r \<and> ar_resolution r = Pending \<and> ar_deadline r \<le> clock st
        \<longrightarrow> resolution_of rid (sys_run (DeadlineFires rid # es) st) = Some TimedOut)
   \<and> length (filter (\<lambda>w. fst w = rid) (resolved_waiters (sys_run es st)))
       \<le> length (filter (\<lambda>w. fst w = rid) (resolved_waiters st))
          + (if approvalHandlers st rid \<noteq> None then 1 else 0)"
proof (intro conjI allI impI)
  show "transitions rid st es \<le> 1" by (rule transitions_at_most_once)
next
  assume "resolution_of rid st = Some Pending \<and> (\<exists>e \<in> set es. resolves rid e)"
  then show "transitions rid st es = 1" by (simp add: transitions_exactly_once)
next
  fix v
  assume "resolution_of rid st = Some v \<and> v \<noteq> Pending"
  then have "settled rid v (runtime (sys_run es st))"
    by (intro sys_run_settled) (simp add: settled_resolution_of)
  then show "resolution_of rid (sys_run es st) = Some v" by (simp add: settled_resolution_of)
next
  assume a: "resolution_of rid st = Some Pending \<and> dto_requestId dto = rid"
  let ?v = "if dto_approved dto then Approved else Rejected"
  from a have "resolution_of rid (sys_step (ApproveCall dto) st) = Some ?v"
    by (intro approve_call_resolves) simp_all
  then have "settled rid ?v (runtime (sys_step (ApproveCall dto) st))"
    by (simp add: settled_def resolution_of_def)
  then have "settled rid ?v (runtime (sys_run es (sys_step (ApproveCall dto) st)))"
    by (rule sys_run_settled)
  then show "resolution_of rid (sys_run (ApproveCall dto # es) st) = Some ?v"
    by (simp add: settled_resolution_of)
next
  fix r
  assume a: "runtime st rid = Some r \<and> ar_resolution r = Pending \<and> ar_deadline r \<le> clock st"
  then have "resolution_of rid (sys_step (DeadlineFires rid) st) = Some TimedOut"
    by (intro deadline_resolves [of st rid r]) simp_all
  then have "settled rid TimedOut (runtime (sys_step (DeadlineFires rid) st))"
    by (simp add: settled_def resolution_of_def)
  then have "settled rid TimedOut (runtime (sys_run es (sys_step (DeadlineFires rid) st)))"
    by (rule sys_run_settled)
  then show "resolution_of rid (sys_run (DeadlineFires rid # es) st) = Some TimedOut"
    by (simp add: settled_resolution_of)
next
  show "length (filter (\<lambda>w. fst w = rid) (resolved_waiters (sys_run es st)))
          \<le> length (filter (\<lambda>w. fst w = rid) (resolved_waiters st))
             + (if approvalHandlers st rid \<noteq> None then 1 else 0)"
    by (rule waiters_resolved_once)
qed

lemma refund_requested_eq:
  "refund_requested =
     \<lparr>runtime = [''req-1'' \<mapsto> pending_refund], approvalHandlers = Map.empty,
      resolved_waiters = [], timers = [(31000, ''req-1'')], clock = 1000\<rparr>"
  by (simp add: refund_requested_def idle_service_def gate_request_def
        on_tool_approval_requested_def pending_refund_def)

theorem approval_resolves_exactly_once_witness:
  "resolution_of ''req-1'' refund_requested = Some Pending
   \<and> transitions ''req-1'' refund_requested refund_race = 1
   \<and> resolution_of ''req-1'' (sys_run refund_race refund_requested) = Some Rejected"
proof -
  have pending: "resolution_of ''req-1'' refund_requested = Some Pending"
    by (simp add: refund_requested_eq resolution_of_def pending_refund_def)
  have attempt: "\<exists>e \<in> set refund_race. resolves ''req-1'' e"
    by (simp add: refund_race_def resolves_def)
  from approval_resolves_exactly_once [of "''req-1''" refund_requested refund_race] pending attempt
  have once: "transitions ''req-1'' refund_requested refund_race = 1"
    by blast
  from approval_resolves_exactly_once
         [of "''req-1''" refund_requested "tl refund_race"
             "\<lparr>dto_requestId = ''req-1'', dto_approved = False, dto_approvedBy = ''alice''\<rparr>"]
       pending
  have "resolution_of ''req-1''
          (sys_run (ApproveCall \<lparr>dto_requestId = ''req-1'', dto_approved = False,
                                  dto_approvedBy = ''alice''\<rparr> # tl refund_race)
             refund_requested) = Some Rejected"
    by simp
  then have final: "resolution_of ''req-1'' (sys_run refund_race refund_requested) = Some Rejected"
    by (simp add: refund_race_def)
  from pending once final show ?thesis by simp
qed

subsection \<open>Automatic approval\<close>



lemma callback_fields [simp]:
  "approvalHandlers (auto_approve_callback R rid' s) = approvalHandlers s"
  "timers (auto_approve_callback R rid' s) = timers s"
  "clock (auto_approve_callback R rid' s) = clock s"
  by (simp_all add: auto_approve_callback_def)

lemma callbacks_fields [simp]:
  "approvalHandlers (foldl (\<lambda>s tm. auto_approve_callback R (snd tm) s) s due) = approvalHandlers s"
  "timers (foldl (\<lambda>s tm. auto_approve_callback R (snd tm) s) s due) = timers s"
  "clock (foldl (\<lambda>s tm. auto_approve_callback R (snd tm) s) s due) = clock s"
  by (induction due arbitrary: s) simp_all
















text \<open>The guard \<open>if (requestId)\<close> of the listener: an empty id schedules nothing.\<close>

lemma empty_request_id_schedules_nothing:
  "on_tool_approval_requested (Some []) st = st"
  by (simp add: on_tool_approval_requested_def)

end
